theory Spec2Isabelle
  imports Complex_Main "HOL-Library.Multiset" "HOL-Library.Word"
begin

section \<open>Values of the program\<close>

text \<open>
  A JavaScript string is a sequence of UTF-16 code units; \<open>===\<close>, \<open>includes\<close> and
  \<open>trim\<close> work on code units. The step index of a wizard is an integer.

  A JavaScript \<open>number\<close> that holds a coordinate or a distance is an IEEE double. It is
  represented here by a real number, and the arithmetic on it by the exact arithmetic: the
  model has no rounding, no \<open>NaN\<close> and no infinity. So \<open>calculateDistance\<close> below is the
  value of the source's formula in exact arithmetic. The value the program computes differs
  from it by rounding; for two nearly antipodal points the rounded \<open>a\<close> exceeds 1 and the
  program's result is \<open>NaN\<close>. Nothing is proved here about the values of the distance: what
  is proved of \<open>nearbyShops\<close> uses only how distances are compared with the radius and with
  each other.
\<close>

type_synonym jsstring = "16 word list"

definition ascii :: "string \<Rightarrow> jsstring" where
  "ascii s = map of_char s"

subsection \<open>String literals of the components\<close>

text \<open>
  The Japanese literals, as their UTF-16 code units.
\<close>

text \<open>The option ``other'' that ends every choice list (three code units).\<close>

definition sonota :: jsstring where
  "sonota =
     [0x305D, 0x306E, 0x4ED6]"

text \<open>Shop, validateStep1: the shop name is blank.\<close>

definition msg_shop_name :: jsstring where
  "msg_shop_name =
     [0x5E97, 0x8217, 0x540D, 0x3092, 0x5165, 0x529B, 0x3057, 0x3066, 0x304F, 0x3060,
      0x3055, 0x3044]"

text \<open>Shop, validateStep1: the address is blank.\<close>

definition msg_shop_address :: jsstring where
  "msg_shop_address =
     [0x4F4F, 0x6240, 0x3092, 0x5165, 0x529B, 0x3057, 0x3066, 0x304F, 0x3060, 0x3055,
      0x3044]"

text \<open>Shop, validateStep1: no category is selected.\<close>

definition msg_shop_category :: jsstring where
  "msg_shop_category =
     [0x30AB, 0x30C6, 0x30B4, 0x30EA, 0x3092, 0x9078, 0x629E, 0x3057, 0x3066, 0x304F,
      0x3060, 0x3055, 0x3044]"

text \<open>Shop, validateStep2: no use of JPYC is given.\<close>

definition msg_shop_useCases :: jsstring where
  "msg_shop_useCases =
     [0x004A, 0x0050, 0x0059, 0x0043, 0x306E, 0x4F7F, 0x3044, 0x65B9, 0x3092, 0x0031,
      0x3064, 0x4EE5, 0x4E0A, 0x9078, 0x629E, 0x3057, 0x3066, 0x304F, 0x3060, 0x3055,
      0x3044]"

text \<open>Shop, validateStep2: no network is given.\<close>

definition msg_shop_networks :: jsstring where
  "msg_shop_networks =
     [0x5BFE, 0x5FDC, 0x30CD, 0x30C3, 0x30C8, 0x30EF, 0x30FC, 0x30AF, 0x3092, 0x0031,
      0x3064, 0x4EE5, 0x4E0A, 0x9078, 0x629E, 0x3057, 0x3066, 0x304F, 0x3060, 0x3055,
      0x3044]"

text \<open>Shop, validateStep2: no payment method is selected.\<close>

definition msg_shop_paymentMethod :: jsstring where
  "msg_shop_paymentMethod =
     [0x652F, 0x6255, 0x3044, 0x65B9, 0x6CD5, 0x3092, 0x9078, 0x629E, 0x3057, 0x3066,
      0x304F, 0x3060, 0x3055, 0x3044]"

text \<open>Merchant, validateStep1: the service name is blank.\<close>

definition msg_merchant_name :: jsstring where
  "msg_merchant_name =
     [0x30B5, 0x30FC, 0x30D3, 0x30B9, 0x540D, 0x3092, 0x5165, 0x529B, 0x3057, 0x3066,
      0x304F, 0x3060, 0x3055, 0x3044]"

text \<open>Merchant, validateStep1: the URL is blank.\<close>

definition msg_merchant_url :: jsstring where
  "msg_merchant_url =
     [0x0055, 0x0052, 0x004C, 0x3092, 0x5165, 0x529B, 0x3057, 0x3066, 0x304F, 0x3060,
      0x3055, 0x3044]"

text \<open>Merchant, validateStep1: no service type is selected.\<close>

definition msg_merchant_serviceType :: jsstring where
  "msg_merchant_serviceType =
     [0x30B5, 0x30FC, 0x30D3, 0x30B9, 0x7A2E, 0x5225, 0x3092, 0x9078, 0x629E, 0x3057,
      0x3066, 0x304F, 0x3060, 0x3055, 0x3044]"

text \<open>Merchant, validateStep2: no use of JPYC is given.\<close>

definition msg_merchant_useCase :: jsstring where
  "msg_merchant_useCase =
     [0x004A, 0x0050, 0x0059, 0x0043, 0x306E, 0x4F7F, 0x3044, 0x9053, 0x3092, 0x9078,
      0x629E, 0x307E, 0x305F, 0x306F, 0x5165, 0x529B, 0x3057, 0x3066, 0x304F, 0x3060,
      0x3055, 0x3044]"

text \<open>Merchant, validateStep2: no platform is selected.\<close>

definition msg_merchant_platforms :: jsstring where
  "msg_merchant_platforms =
     [0x30D7, 0x30E9, 0x30C3, 0x30C8, 0x30D5, 0x30A9, 0x30FC, 0x30E0, 0x3092, 0x0031,
      0x3064, 0x4EE5, 0x4E0A, 0x9078, 0x629E, 0x3057, 0x3066, 0x304F, 0x3060, 0x3055,
      0x3044]"

text \<open>handleSubmit: the confirmation box is not ticked.\<close>

definition msg_confirm :: jsstring where
  "msg_confirm =
     [0x78BA, 0x8A8D, 0x30C1, 0x30A7, 0x30C3, 0x30AF, 0x3092, 0x5165, 0x308C, 0x3066,
      0x304F, 0x3060, 0x3055, 0x3044]"

text \<open>handleSubmit: nobody is signed in.\<close>

definition msg_login :: jsstring where
  "msg_login =
     [0x30ED, 0x30B0, 0x30A4, 0x30F3, 0x304C, 0x5FC5, 0x8981, 0x3067, 0x3059]"

text \<open>handleSubmit: there is no Supabase client.\<close>

definition msg_supabase :: jsstring where
  "msg_supabase =
     [0x0053, 0x0075, 0x0070, 0x0061, 0x0062, 0x0061, 0x0073, 0x0065, 0x304C, 0x8A2D,
      0x5B9A, 0x3055, 0x308C, 0x3066, 0x3044, 0x307E, 0x305B, 0x3093]"

text \<open>handleSubmit: the insert failed; the user is asked to try again.\<close>

definition msg_failed :: jsstring where
  "msg_failed =
     [0x767B, 0x9332, 0x306B, 0x5931, 0x6557, 0x3057, 0x307E, 0x3057, 0x305F, 0x3002,
      0x3082, 0x3046, 0x4E00, 0x5EA6, 0x304A, 0x8A66, 0x3057, 0x304F, 0x3060, 0x3055,
      0x3044, 0x3002]"

text \<open>Merchant, handleSubmit: the label in front of the free text of the service type.\<close>

definition serviceTypeNote :: jsstring where
  "serviceTypeNote =
     [0x3010, 0x30B5, 0x30FC, 0x30D3, 0x30B9, 0x7A2E, 0x5225, 0x88DC, 0x8DB3, 0x3011]"

text \<open>Scenario A: the category.\<close>

definition cafe :: jsstring where
  "cafe =
     [0x30AB, 0x30D5, 0x30A7]"

text \<open>Scenario A: the use of JPYC.\<close>

definition storePayment :: jsstring where
  "storePayment =
     [0x5E97, 0x982D, 0x6C7A, 0x6E08]"

text \<open>Scenario A: the payment method.\<close>

definition qrPayment :: jsstring where
  "qrPayment =
     [0x0051, 0x0052, 0x30B3, 0x30FC, 0x30C9, 0x6C7A, 0x6E08]"

subsection \<open>src/types/index.ts\<close>

datatype Status = Pending | Approved | Rejected

record Location =
  lat :: real
  lng :: real

text \<open>Interface \<open>Shop\<close>; field \<open>f\<close> of the interface is \<open>shop_f\<close>, \<open>T | null\<close> is an option.\<close>

record Shop =
  shop_id :: jsstring
  shop_name :: jsstring
  shop_address :: jsstring
  shop_lat :: real
  shop_lng :: real
  shop_jpyc_networks :: "jsstring list option"
  shop_payment_methods :: "jsstring list option"
  shop_url :: "jsstring option"
  shop_tags :: "jsstring list option"
  shop_status :: Status
  shop_created_by :: "jsstring option"
  shop_upvotes :: int
  shop_downvotes :: int
  shop_created_at :: jsstring
  shop_updated_at :: jsstring

text \<open>The object \<open>{ ...shop, distance: d }\<close>: a \<open>Shop\<close> with one more property.\<close>

record ShopWithDistance = Shop +
  distance :: real

section \<open>src/components/ShopsTab.tsx\<close>

subsection \<open>Library functions used by the component\<close>

text \<open>
  \<open>Math.atan2(y, x)\<close> on real arguments: the angle of the point \<open>(x, y)\<close>, in
  \<open>(-\<pi>, \<pi>]\<close>, and \<open>0\<close> at the origin.
\<close>

definition atan2 :: "real \<Rightarrow> real \<Rightarrow> real" where
  "atan2 y x =
     (if 0 < x then arctan (y / x)
      else if x < 0 then (if 0 \<le> y then arctan (y / x) + pi else arctan (y / x) - pi)
      else if 0 < y then pi / 2
      else if y < 0 then - (pi / 2)
      else 0)"

text \<open>
  \<open>Array.prototype.sort(comparefn)\<close>: a stable sort (ECMAScript 2019). An element moves
  behind another one only where the comparator is positive, so elements that compare equal
  keep their order. The model inserts each element, from the right, into the sorted rest.
\<close>

fun sort_insert :: "('a \<Rightarrow> 'a \<Rightarrow> real) \<Rightarrow> 'a \<Rightarrow> 'a list \<Rightarrow> 'a list" where
  "sort_insert cmp x [] = [x]"
| "sort_insert cmp x (y # ys) =
     (if 0 < cmp x y then y # sort_insert cmp x ys else x # y # ys)"

fun array_sort :: "('a \<Rightarrow> 'a \<Rightarrow> real) \<Rightarrow> 'a list \<Rightarrow> 'a list" where
  "array_sort cmp [] = []"
| "array_sort cmp (x # xs) = sort_insert cmp x (array_sort cmp xs)"

subsection \<open>calculateDistance\<close>

text \<open>
  The formula of the source, operation by operation, in exact arithmetic. The program
  evaluates it in doubles and has no bound on \<open>a\<close> before \<open>Math.sqrt(1 - a)\<close>.
\<close>

definition calculateDistance :: "real \<Rightarrow> real \<Rightarrow> real \<Rightarrow> real \<Rightarrow> real" where
  "calculateDistance lat1 lng1 lat2 lng2 =
     (let R = 6371;
          dLat = ((lat2 - lat1) * pi) / 180;
          dLng = ((lng2 - lng1) * pi) / 180;
          a = sin (dLat / 2) * sin (dLat / 2) +
              cos ((lat1 * pi) / 180) * cos ((lat2 * pi) / 180) *
              sin (dLng / 2) * sin (dLng / 2);
          c = 2 * atan2 (sqrt a) (sqrt (1 - a))
      in R * c)"

subsection \<open>The component's state and the derived list nearbyShops\<close>

record ShopsTab =
  shops :: "Shop list"
  userLocation :: "Location option"
  loading :: bool
  tab_error :: "jsstring option"
  selectedShop :: "Shop option"
  searchRadius :: real
  mapReady :: bool

text \<open>The values given to \<open>useState\<close>.\<close>

definition initialShopsTab :: ShopsTab where
  "initialShopsTab =
     \<lparr>shops = [], userLocation = None, loading = True, tab_error = None,
      selectedShop = None, searchRadius = 10, mapReady = False\<rparr>"

text \<open>
  The geolocation effect calls \<open>setUserLocation\<close> once: with the reported position, or
  with Tokyo Station when the request fails or the browser has no geolocation.
\<close>

datatype Geolocation = Position real real | PositionError | Unsupported

definition tokyoStation :: Location where
  "tokyoStation = \<lparr>lat = 35.6812, lng = 139.7671\<rparr>"

fun geolocationEffect :: "Geolocation \<Rightarrow> ShopsTab \<Rightarrow> ShopsTab" where
  "geolocationEffect (Position la lo) st = st\<lparr>userLocation := Some \<lparr>lat = la, lng = lo\<rparr>\<rparr>"
| "geolocationEffect PositionError st = st\<lparr>userLocation := Some tokyoStation\<rparr>"
| "geolocationEffect Unsupported st = st\<lparr>userLocation := Some tokyoStation\<rparr>"

text \<open>The callback of \<open>map\<close>, of \<open>filter\<close> and of \<open>sort\<close>.\<close>

definition withDistance :: "Location \<Rightarrow> Shop \<Rightarrow> ShopWithDistance" where
  "withDistance loc shop =
     Shop.extend shop
       (ShopWithDistance.fields
          (calculateDistance (lat loc) (lng loc) (shop_lat shop) (shop_lng shop)))"

definition withinRadius :: "real \<Rightarrow> ShopWithDistance \<Rightarrow> bool" where
  "withinRadius radius shop = (distance shop \<le> radius)"

definition byDistance :: "ShopWithDistance \<Rightarrow> ShopWithDistance \<Rightarrow> real" where
  "byDistance a b = distance a - distance b"

text \<open>
  The value of the memo is of type \<open>Shop[]\<close> in its first branch and a list of shops
  with their distance in the second.
\<close>

datatype NearbyShops = AllShops "Shop list" | Nearby "ShopWithDistance list"

definition nearbyShops :: "Shop list \<Rightarrow> Location option \<Rightarrow> real \<Rightarrow> NearbyShops" where
  "nearbyShops shopList location radius =
     (case location of
        None \<Rightarrow> AllShops shopList
      | Some loc \<Rightarrow>
          Nearby (array_sort byDistance
                    (filter (withinRadius radius) (map (withDistance loc) shopList))))"

definition nearbyShopsOf :: "ShopsTab \<Rightarrow> NearbyShops" where
  "nearbyShopsOf st = nearbyShops (shops st) (userLocation st) (searchRadius st)"

section \<open>The registration wizards\<close>

subsection \<open>Strings: trim and truthiness\<close>

text \<open>
  \<open>String.prototype.trim\<close> removes white space and line terminators from both ends:
  TAB, LF, VT, FF, CR, SPACE, NBSP, U+1680, U+2000 to U+200A, U+2028, U+2029, U+202F,
  U+205F, U+3000 (the ideographic space) and U+FEFF.
\<close>

definition isWhiteSpace :: "16 word \<Rightarrow> bool" where
  "isWhiteSpace c \<longleftrightarrow>
     c \<in> {0x0009, 0x000A, 0x000B, 0x000C, 0x000D, 0x0020, 0x00A0, 0x1680,
          0x2028, 0x2029, 0x202F, 0x205F, 0x3000, 0xFEFF}
     \<or> (0x2000 \<le> c \<and> c \<le> 0x200A)"

definition trim :: "jsstring \<Rightarrow> jsstring" where
  "trim s = rev (dropWhile isWhiteSpace (rev (dropWhile isWhiteSpace s)))"

text \<open>A string is falsy when it is empty: \<open>!s\<close> and \<open>s || null\<close>.\<close>

definition orNull :: "jsstring \<Rightarrow> jsstring option" where
  "orNull s = (if s = [] then None else Some s)"

subsection \<open>State shared by both forms\<close>

text \<open>The six \<open>useState\<close> cells of a form component (the \<open>mapReady\<close> of the shop form apart).\<close>

record 'fd Wizard =
  step :: int
  formData :: 'fd
  confirmed :: bool
  submitting :: bool
  submitted :: bool
  error :: "jsstring option"

text \<open>The signed-in user of \<open>useAuth\<close>; only its \<open>id\<close> is read.\<close>

record User =
  user_id :: jsstring

text \<open>
  What \<open>await supabase.from(table).insert(row)\<close> gives: a result without an error, a
  result with an error (which the handler throws), or a rejected promise.
\<close>

datatype InsertResult = InsertOk | InsertFailed | InsertThrew

text \<open>
  The module-level \<open>supabase\<close> is \<open>null\<close> when the two environment variables are
  not set, and a client otherwise; of a client only the insert into one table is used.
\<close>

type_synonym 'row SupabaseClient = "'row \<Rightarrow> InsertResult"

text \<open>\<open>prevStep\<close> is the same function in both components.\<close>

definition prevStep :: "'fd Wizard \<Rightarrow> 'fd Wizard" where
  "prevStep st = st\<lparr>error := None, step := step st - 1\<rparr>"

text \<open>
  The part of \<open>handleSubmit\<close> after the \<open>await\<close>: the rest of the \<open>try\<close> block,
  \<open>catch\<close> and \<open>finally\<close>.
\<close>

definition submitSettle :: "InsertResult \<Rightarrow> 'fd Wizard \<Rightarrow> 'fd Wizard" where
  "submitSettle res st =
     (case res of
        InsertOk \<Rightarrow> st\<lparr>submitted := True, submitting := False\<rparr>
      | InsertFailed \<Rightarrow> st\<lparr>error := Some msg_failed, submitting := False\<rparr>
      | InsertThrew \<Rightarrow> st\<lparr>error := Some msg_failed, submitting := False\<rparr>)"

text \<open>
  What the user can do to a rendered form. A click on a control that is not rendered, or
  is disabled, does not exist: the interpretation of an event returns \<open>None\<close> then.
\<close>

datatype ('fd, 'row) UiEvent =
    ClickNext
  | ClickBack
  | ClickSubmit "User option" "'row SupabaseClient option"
  | InsertSettled InsertResult
  | ClickReset
  | ChangeForm "'fd \<Rightarrow> 'fd"
  | ChangeConfirmed bool

subsection \<open>src/components/ShopRegistrationForm.tsx\<close>

text \<open>Interface \<open>ShopFormData\<close>; field \<open>f\<close> is \<open>sf_f\<close>.\<close>

record ShopFormData =
  sf_name :: jsstring
  sf_address :: jsstring
  sf_category :: jsstring
  sf_lat :: real
  sf_lng :: real
  sf_jpycUseCases :: "jsstring list"
  sf_jpycUseCaseOther :: jsstring
  sf_networks :: "jsstring list"
  sf_networkOther :: jsstring
  sf_paymentMethod :: jsstring
  sf_url :: jsstring
  sf_twitter :: jsstring
  sf_note :: jsstring

definition shop_initialFormData :: ShopFormData where
  "shop_initialFormData =
     \<lparr>sf_name = [], sf_address = [], sf_category = [], sf_lat = 35.6812, sf_lng = 139.7671,
      sf_jpycUseCases = [], sf_jpycUseCaseOther = [], sf_networks = [], sf_networkOther = [],
      sf_paymentMethod = [], sf_url = [], sf_twitter = [], sf_note = []\<rparr>"

definition shop_initial :: "ShopFormData Wizard" where
  "shop_initial =
     \<lparr>step = 1, formData = shop_initialFormData, confirmed = False, submitting = False,
      submitted = False, error = None\<rparr>"

text \<open>The object given to \<open>supabase.from('shops').insert\<close>; property \<open>p\<close> is \<open>sr_p\<close>.\<close>

record ShopRow =
  sr_name :: jsstring
  sr_address :: jsstring
  sr_lat :: real
  sr_lng :: real
  sr_jpyc_networks :: "jsstring list"
  sr_payment_methods :: "jsstring list"
  sr_url :: "jsstring option"
  sr_tags :: "jsstring list"
  sr_status :: Status
  sr_created_by :: jsstring
  sr_upvotes :: int
  sr_downvotes :: int

text \<open>A validation sets the error and returns whether the step may be left.\<close>

definition shop_validateStep1 :: "ShopFormData Wizard \<Rightarrow> bool \<times> ShopFormData Wizard" where
  "shop_validateStep1 st =
     (if trim (sf_name (formData st)) = [] then (False, st\<lparr>error := Some msg_shop_name\<rparr>)
      else if trim (sf_address (formData st)) = [] then
        (False, st\<lparr>error := Some msg_shop_address\<rparr>)
      else if sf_category (formData st) = [] then
        (False, st\<lparr>error := Some msg_shop_category\<rparr>)
      else (True, st\<lparr>error := None\<rparr>))"

definition shop_validateStep2 :: "ShopFormData Wizard \<Rightarrow> bool \<times> ShopFormData Wizard" where
  "shop_validateStep2 st =
     (if length (sf_jpycUseCases (formData st)) = 0 \<and>
         trim (sf_jpycUseCaseOther (formData st)) = [] then
        (False, st\<lparr>error := Some msg_shop_useCases\<rparr>)
      else if length (sf_networks (formData st)) = 0 \<and>
         trim (sf_networkOther (formData st)) = [] then
        (False, st\<lparr>error := Some msg_shop_networks\<rparr>)
      else if sf_paymentMethod (formData st) = [] then
        (False, st\<lparr>error := Some msg_shop_paymentMethod\<rparr>)
      else (True, st\<lparr>error := None\<rparr>))"

text \<open>
  \<open>step === 1 && validateStep1()\<close>: the validation runs only at its own step, and a
  failed validation of step 1 is followed by the test \<open>step === 2\<close>, which is false.
\<close>

definition shop_nextStep :: "ShopFormData Wizard \<Rightarrow> ShopFormData Wizard" where
  "shop_nextStep st =
     (if step st = 1 then
        (case shop_validateStep1 st of
           (True, st') \<Rightarrow> st'\<lparr>step := 2\<rparr>
         | (False, st') \<Rightarrow> st')
      else if step st = 2 then
        (case shop_validateStep2 st of
           (True, st') \<Rightarrow> st'\<lparr>step := 3\<rparr>
         | (False, st') \<Rightarrow> st')
      else st)"

text \<open>The two lists that \<open>handleSubmit\<close> builds in its \<open>try\<close> block.\<close>

definition shop_jpycUseCases :: "ShopFormData \<Rightarrow> jsstring list" where
  "shop_jpycUseCases fd =
     (if trim (sf_jpycUseCaseOther fd) \<noteq> [] then
        sf_jpycUseCases fd @ [trim (sf_jpycUseCaseOther fd)]
      else sf_jpycUseCases fd)"

definition shop_networks :: "ShopFormData \<Rightarrow> jsstring list" where
  "shop_networks fd =
     (if sonota \<in> set (sf_networks fd) \<and> trim (sf_networkOther fd) \<noteq> [] then
        filter (\<lambda>n. n \<noteq> sonota) (sf_networks fd) @ [trim (sf_networkOther fd)]
      else filter (\<lambda>n. n \<noteq> sonota) (sf_networks fd))"

text \<open>
  The row that is inserted. The source builds the list \<open>jpycUseCases\<close> and does not
  use it afterwards.
\<close>

definition shop_row :: "ShopFormData \<Rightarrow> User \<Rightarrow> ShopRow" where
  "shop_row fd user =
     (let tags = [sf_category fd];
          jpycUseCases = shop_jpycUseCases fd;
          networks = shop_networks fd
      in \<lparr>sr_name = trim (sf_name fd),
          sr_address = trim (sf_address fd),
          sr_lat = sf_lat fd,
          sr_lng = sf_lng fd,
          sr_jpyc_networks = networks,
          sr_payment_methods = [sf_paymentMethod fd],
          sr_url = orNull (trim (sf_url fd)),
          sr_tags = tags,
          sr_status = Pending,
          sr_created_by = user_id user,
          sr_upvotes = 0,
          sr_downvotes = 0\<rparr>)"

text \<open>
  \<open>handleSubmit\<close> up to the \<open>await\<close>: the three guards, the two state updates, and the
  call that is made, if any.
\<close>

definition shop_submitStart ::
  "User option \<Rightarrow> ShopRow SupabaseClient option \<Rightarrow> ShopFormData Wizard \<Rightarrow>
     ShopFormData Wizard \<times> (ShopRow SupabaseClient \<times> ShopRow) option" where
  "shop_submitStart user supabase st =
     (if \<not> confirmed st then (st\<lparr>error := Some msg_confirm\<rparr>, None)
      else case user of
        None \<Rightarrow> (st\<lparr>error := Some msg_login\<rparr>, None)
      | Some u \<Rightarrow>
          (case supabase of
             None \<Rightarrow> (st\<lparr>error := Some msg_supabase\<rparr>, None)
           | Some client \<Rightarrow>
               (st\<lparr>submitting := True, error := None\<rparr>,
                Some (client, shop_row (formData st) u))))"

text \<open>
  \<open>handleSubmit\<close> as a whole, with nothing happening during the \<open>await\<close>: the state
  it leaves and the rows it has given to \<open>insert\<close>.
\<close>

definition shop_handleSubmit ::
  "User option \<Rightarrow> ShopRow SupabaseClient option \<Rightarrow> ShopFormData Wizard \<Rightarrow>
     ShopFormData Wizard \<times> ShopRow list" where
  "shop_handleSubmit user supabase st =
     (case shop_submitStart user supabase st of
        (st1, None) \<Rightarrow> (st1, [])
      | (st1, Some (client, row)) \<Rightarrow> (submitSettle (client row) st1, [row]))"

definition shop_resetForm :: "ShopFormData Wizard \<Rightarrow> ShopFormData Wizard" where
  "shop_resetForm st =
     st\<lparr>formData := shop_initialFormData, step := 1, confirmed := False,
        submitted := False, error := None\<rparr>"

text \<open>
  The rendering decides which handler a click can reach: a submitted form shows only the
  reset button; otherwise the back button exists for \<open>step > 1\<close>, the next button for
  \<open>step < 3\<close> and the submit button (disabled while submitting) in its place from then
  on; the confirmation box belongs to step 3. The insert settles while a submission is
  under way.
\<close>

definition shop_ui ::
  "(ShopFormData, ShopRow) UiEvent \<Rightarrow> ShopFormData Wizard \<Rightarrow> ShopFormData Wizard option" where
  "shop_ui ev st =
     (case ev of
        InsertSettled res \<Rightarrow> if submitting st then Some (submitSettle res st) else None
      | ClickReset \<Rightarrow> if submitted st then Some (shop_resetForm st) else None
      | ClickBack \<Rightarrow> if \<not> submitted st \<and> step st > 1 then Some (prevStep st) else None
      | ClickNext \<Rightarrow> if \<not> submitted st \<and> step st < 3 then Some (shop_nextStep st) else None
      | ClickSubmit user supabase \<Rightarrow>
          if \<not> submitted st \<and> \<not> step st < 3 \<and> \<not> submitting st
          then Some (fst (shop_submitStart user supabase st)) else None
      | ChangeForm f \<Rightarrow>
          if \<not> submitted st then Some (st\<lparr>formData := f (formData st)\<rparr>) else None
      | ChangeConfirmed b \<Rightarrow>
          if \<not> submitted st \<and> step st = 3 then Some (st\<lparr>confirmed := b\<rparr>) else None)"

inductive shop_reachable :: "ShopFormData Wizard \<Rightarrow> bool" where
  shop_start: "shop_reachable shop_initial"
| shop_event: "shop_reachable st \<Longrightarrow> shop_ui ev st = Some st' \<Longrightarrow> shop_reachable st'"

subsection \<open>src/components/OnlineMerchantRegistrationForm.tsx\<close>

text \<open>Interface \<open>MerchantFormData\<close>; field \<open>f\<close> is \<open>mf_f\<close>.\<close>

record MerchantFormData =
  mf_name :: jsstring
  mf_url :: jsstring
  mf_description :: jsstring
  mf_serviceType :: jsstring
  mf_serviceTypeOther :: jsstring
  mf_country :: jsstring
  mf_jpycUseCase :: jsstring
  mf_jpycUseCaseOther :: jsstring
  mf_platforms :: "jsstring list"
  mf_platformOther :: jsstring
  mf_tags :: "jsstring list"
  mf_customTag :: jsstring

definition merchant_initialFormData :: MerchantFormData where
  "merchant_initialFormData =
     \<lparr>mf_name = [], mf_url = [], mf_description = [], mf_serviceType = [],
      mf_serviceTypeOther = [], mf_country = [], mf_jpycUseCase = [],
      mf_jpycUseCaseOther = [], mf_platforms = [], mf_platformOther = [], mf_tags = [],
      mf_customTag = []\<rparr>"

definition merchant_initial :: "MerchantFormData Wizard" where
  "merchant_initial =
     \<lparr>step = 1, formData = merchant_initialFormData, confirmed = False, submitting = False,
      submitted = False, error = None\<rparr>"

text \<open>
  The object given to \<open>supabase.from('online_merchants').insert\<close>; property \<open>p\<close> is
  \<open>mr_p\<close>.
\<close>

record MerchantRow =
  mr_name :: jsstring
  mr_url :: jsstring
  mr_description :: "jsstring option"
  mr_service_type :: jsstring
  mr_country :: "jsstring option"
  mr_jpyc_use_case :: jsstring
  mr_platforms :: "jsstring list"
  mr_tags :: "jsstring list option"
  mr_status :: Status
  mr_created_by :: jsstring

definition merchant_validateStep1 ::
  "MerchantFormData Wizard \<Rightarrow> bool \<times> MerchantFormData Wizard" where
  "merchant_validateStep1 st =
     (if trim (mf_name (formData st)) = [] then (False, st\<lparr>error := Some msg_merchant_name\<rparr>)
      else if trim (mf_url (formData st)) = [] then
        (False, st\<lparr>error := Some msg_merchant_url\<rparr>)
      else if mf_serviceType (formData st) = [] then
        (False, st\<lparr>error := Some msg_merchant_serviceType\<rparr>)
      else (True, st\<lparr>error := None\<rparr>))"

definition merchant_validateStep2 ::
  "MerchantFormData Wizard \<Rightarrow> bool \<times> MerchantFormData Wizard" where
  "merchant_validateStep2 st =
     (let useCase = (if mf_jpycUseCase (formData st) = sonota
                     then mf_jpycUseCaseOther (formData st)
                     else mf_jpycUseCase (formData st))
      in if trim useCase = [] then (False, st\<lparr>error := Some msg_merchant_useCase\<rparr>)
         else if length (mf_platforms (formData st)) = 0 then
           (False, st\<lparr>error := Some msg_merchant_platforms\<rparr>)
         else (True, st\<lparr>error := None\<rparr>))"

definition merchant_nextStep :: "MerchantFormData Wizard \<Rightarrow> MerchantFormData Wizard" where
  "merchant_nextStep st =
     (if step st = 1 then
        (case merchant_validateStep1 st of
           (True, st') \<Rightarrow> st'\<lparr>step := 2\<rparr>
         | (False, st') \<Rightarrow> st')
      else if step st = 2 then
        (case merchant_validateStep2 st of
           (True, st') \<Rightarrow> st'\<lparr>step := 3\<rparr>
         | (False, st') \<Rightarrow> st')
      else st)"

text \<open>The values that \<open>handleSubmit\<close> builds in its \<open>try\<close> block.\<close>

definition merchant_jpycUseCase :: "MerchantFormData \<Rightarrow> jsstring" where
  "merchant_jpycUseCase fd =
     (if mf_jpycUseCase fd = sonota then trim (mf_jpycUseCaseOther fd)
      else mf_jpycUseCase fd)"

definition merchant_platforms :: "MerchantFormData \<Rightarrow> jsstring list" where
  "merchant_platforms fd =
     (if sonota \<in> set (mf_platforms fd) \<and> trim (mf_platformOther fd) \<noteq> [] then
        filter (\<lambda>p. p \<noteq> sonota) (mf_platforms fd) @ [trim (mf_platformOther fd)]
      else filter (\<lambda>p. p \<noteq> sonota) (mf_platforms fd))"

definition merchant_description :: "MerchantFormData \<Rightarrow> jsstring" where
  "merchant_description fd =
     (let description = trim (mf_description fd)
      in if mf_serviceType fd = sonota \<and> trim (mf_serviceTypeOther fd) \<noteq> [] then
           (let otherNote = serviceTypeNote @ trim (mf_serviceTypeOther fd)
            in if description \<noteq> [] then description @ [0x000A, 0x000A] @ otherNote
               else otherNote)
         else description)"

definition merchant_row :: "MerchantFormData \<Rightarrow> User \<Rightarrow> MerchantRow" where
  "merchant_row fd user =
     \<lparr>mr_name = trim (mf_name fd),
      mr_url = trim (mf_url fd),
      mr_description = orNull (merchant_description fd),
      mr_service_type = mf_serviceType fd,
      mr_country = orNull (trim (mf_country fd)),
      mr_jpyc_use_case = merchant_jpycUseCase fd,
      mr_platforms = merchant_platforms fd,
      mr_tags = (if length (mf_tags fd) > 0 then Some (mf_tags fd) else None),
      mr_status = Pending,
      mr_created_by = user_id user\<rparr>"

definition merchant_submitStart ::
  "User option \<Rightarrow> MerchantRow SupabaseClient option \<Rightarrow> MerchantFormData Wizard \<Rightarrow>
     MerchantFormData Wizard \<times> (MerchantRow SupabaseClient \<times> MerchantRow) option" where
  "merchant_submitStart user supabase st =
     (if \<not> confirmed st then (st\<lparr>error := Some msg_confirm\<rparr>, None)
      else case user of
        None \<Rightarrow> (st\<lparr>error := Some msg_login\<rparr>, None)
      | Some u \<Rightarrow>
          (case supabase of
             None \<Rightarrow> (st\<lparr>error := Some msg_supabase\<rparr>, None)
           | Some client \<Rightarrow>
               (st\<lparr>submitting := True, error := None\<rparr>,
                Some (client, merchant_row (formData st) u))))"

definition merchant_handleSubmit ::
  "User option \<Rightarrow> MerchantRow SupabaseClient option \<Rightarrow> MerchantFormData Wizard \<Rightarrow>
     MerchantFormData Wizard \<times> MerchantRow list" where
  "merchant_handleSubmit user supabase st =
     (case merchant_submitStart user supabase st of
        (st1, None) \<Rightarrow> (st1, [])
      | (st1, Some (client, row)) \<Rightarrow> (submitSettle (client row) st1, [row]))"

definition merchant_resetForm :: "MerchantFormData Wizard \<Rightarrow> MerchantFormData Wizard" where
  "merchant_resetForm st =
     st\<lparr>formData := merchant_initialFormData, step := 1, confirmed := False,
        submitted := False, error := None\<rparr>"

text \<open>The navigation is rendered as in the shop form.\<close>

definition merchant_ui ::
  "(MerchantFormData, MerchantRow) UiEvent \<Rightarrow> MerchantFormData Wizard \<Rightarrow>
     MerchantFormData Wizard option" where
  "merchant_ui ev st =
     (case ev of
        InsertSettled res \<Rightarrow> if submitting st then Some (submitSettle res st) else None
      | ClickReset \<Rightarrow> if submitted st then Some (merchant_resetForm st) else None
      | ClickBack \<Rightarrow> if \<not> submitted st \<and> step st > 1 then Some (prevStep st) else None
      | ClickNext \<Rightarrow>
          if \<not> submitted st \<and> step st < 3 then Some (merchant_nextStep st) else None
      | ClickSubmit user supabase \<Rightarrow>
          if \<not> submitted st \<and> \<not> step st < 3 \<and> \<not> submitting st
          then Some (fst (merchant_submitStart user supabase st)) else None
      | ChangeForm f \<Rightarrow>
          if \<not> submitted st then Some (st\<lparr>formData := f (formData st)\<rparr>) else None
      | ChangeConfirmed b \<Rightarrow>
          if \<not> submitted st \<and> step st = 3 then Some (st\<lparr>confirmed := b\<rparr>) else None)"

inductive merchant_reachable :: "MerchantFormData Wizard \<Rightarrow> bool" where
  merchant_start: "merchant_reachable merchant_initial"
| merchant_event:
    "merchant_reachable st \<Longrightarrow> merchant_ui ev st = Some st' \<Longrightarrow> merchant_reachable st'"

text \<open>Two clients for closed examples: one whose insert succeeds, one whose insert fails.\<close>

definition acceptingClient :: "'row SupabaseClient" where
  "acceptingClient row = InsertOk"

definition failingClient :: "'row SupabaseClient" where
  "failingClient row = InsertFailed"

subsection \<open>Concrete drafts\<close>

text \<open>A signed-in user, and a form that has reached the confirmation step.\<close>

definition caller :: User where
  "caller = \<lparr>user_id = ascii ''user-1''\<rparr>"

definition atConfirm :: "'fd \<Rightarrow> bool \<Rightarrow> 'fd Wizard" where
  "atConfirm fd c =
     \<lparr>step = 3, formData = fd, confirmed = c, submitting = False, submitted = False,
      error = None\<rparr>"

text \<open>The shop draft of scenario A; the fields it does not name keep their initial values.\<close>

definition scenarioA :: ShopFormData where
  "scenarioA =
     shop_initialFormData
       \<lparr>sf_name := ascii ''Crypto Cafe'', sf_address := ascii ''Tokyo'', sf_category := cafe,
        sf_jpycUseCases := [storePayment], sf_networks := [ascii ''Polygon''],
        sf_paymentMethod := qrPayment\<rparr>"

text \<open>Scenario A with a free-text use of JPYC.\<close>

definition scenarioA_gift :: ShopFormData where
  "scenarioA_gift = scenarioA\<lparr>sf_jpycUseCaseOther := ascii ''Gift''\<rparr>"

text \<open>Scenario A with ``other'' as its only network and two spaces as the free text.\<close>

definition scenarioA_otherNetwork :: ShopFormData where
  "scenarioA_otherNetwork =
     scenarioA\<lparr>sf_networks := [sonota], sf_networkOther := ascii ''  ''\<rparr>"

text \<open>
  The merchant draft of scenario B, with a name, a URL, the service type \<open>EC\<close> and the
  first use of JPYC of the choice list.
\<close>

definition scenarioB :: MerchantFormData where
  "scenarioB =
     merchant_initialFormData
       \<lparr>mf_name := ascii ''Bot Shop'', mf_url := ascii ''https://example.com'',
        mf_serviceType := ascii ''EC'', mf_jpycUseCase := [0x6C7A, 0x6E08],
        mf_platforms := [sonota], mf_platformOther := ascii ''Discord Bot''\<rparr>"

text \<open>Scenario B where the user has typed the word ``other'' itself as the free text.\<close>

definition scenarioB_sentinel :: MerchantFormData where
  "scenarioB_sentinel = scenarioB\<lparr>mf_platformOther := sonota\<rparr>"

section \<open>Properties of ShopsTab\<close>











subsection \<open>Before the location is known\<close>

text \<open>
  Claim C9. The location is \<open>null\<close> when the component is created, and it stays
  \<open>null\<close> until the geolocation effect stores a position or Tokyo Station. While it is
  \<open>null\<close> the memo \<open>nearbyShops\<close> is the list \<open>shops\<close> itself, whatever the list and
  the radius are: nothing is dropped, reordered or given a distance.
\<close>

theorem nearbyShops_without_location:
  "nearbyShops shopList None radius = AllShops shopList \<and>
   userLocation initialShopsTab = None \<and>
   nearbyShopsOf (st\<lparr>userLocation := None\<rparr>) = AllShops (shops st) \<and>
   userLocation (geolocationEffect g st) \<noteq> None"
  by (cases g) (simp_all add: nearbyShops_def nearbyShopsOf_def initialShopsTab_def)

section \<open>Properties of the registration wizards\<close>

subsection \<open>What handleSubmit does in each of its branches\<close>

lemma shop_handleSubmit_guard:
  assumes "\<not> confirmed st \<or> user = None"
  shows "shop_handleSubmit user supabase st =
           (st\<lparr>error := Some (if \<not> confirmed st then msg_confirm else msg_login)\<rparr>, [])"
  using assms by (auto simp: shop_handleSubmit_def shop_submitStart_def)

lemma merchant_handleSubmit_guard:
  assumes "\<not> confirmed st \<or> user = None"
  shows "merchant_handleSubmit user supabase st =
           (st\<lparr>error := Some (if \<not> confirmed st then msg_confirm else msg_login)\<rparr>, [])"
  using assms by (auto simp: merchant_handleSubmit_def merchant_submitStart_def)

lemma shop_handleSubmit_rejected:
  assumes "confirmed st" and "client (shop_row (formData st) u) \<noteq> InsertOk"
  shows "shop_handleSubmit (Some u) (Some client) st =
           (st\<lparr>submitting := False, error := Some msg_failed\<rparr>, [shop_row (formData st) u])"
  using assms by (cases "client (shop_row (formData st) u)")
    (simp_all add: shop_handleSubmit_def shop_submitStart_def submitSettle_def)

lemma merchant_handleSubmit_rejected:
  assumes "confirmed st" and "client (merchant_row (formData st) u) \<noteq> InsertOk"
  shows "merchant_handleSubmit (Some u) (Some client) st =
           (st\<lparr>submitting := False, error := Some msg_failed\<rparr>,
            [merchant_row (formData st) u])"
  using assms by (cases "client (merchant_row (formData st) u)")
    (simp_all add: merchant_handleSubmit_def merchant_submitStart_def submitSettle_def)

lemma shop_handleSubmit_rows:
  "snd (shop_handleSubmit (Some u) (Some client) (st\<lparr>confirmed := True\<rparr>)) =
     [shop_row (formData st) u]"
  by (simp add: shop_handleSubmit_def shop_submitStart_def)

lemma merchant_handleSubmit_rows:
  "snd (merchant_handleSubmit (Some u) (Some client) (st\<lparr>confirmed := True\<rparr>)) =
     [merchant_row (formData st) u]"
  by (simp add: merchant_handleSubmit_def merchant_submitStart_def)

lemma shop_handleSubmit_accepted:
  "fst (shop_handleSubmit (Some u) (Some acceptingClient) (st\<lparr>confirmed := True\<rparr>)) =
     st\<lparr>confirmed := True, submitting := False, submitted := True, error := None\<rparr>"
  by (simp add: shop_handleSubmit_def shop_submitStart_def submitSettle_def
        acceptingClient_def)

lemma atConfirm_update: "(atConfirm fd c)\<lparr>confirmed := True\<rparr> = atConfirm fd True"
  by (simp add: atConfirm_def)

subsection \<open>Facts about the literals\<close>

lemma sonota_nonempty: "sonota \<noteq> []"
  by (simp add: sonota_def)

lemma polygon_not_sonota: "ascii ''Polygon'' \<noteq> sonota"
  by (simp add: sonota_def ascii_def)

lemma msg_shop_networks_distinct:
  "msg_shop_networks \<noteq> msg_shop_useCases \<and> msg_shop_networks \<noteq> msg_shop_paymentMethod"
  by (simp add: msg_shop_networks_def msg_shop_useCases_def msg_shop_paymentMethod_def)

lemma trim_scenarioB_platformOther:
  "trim (mf_platformOther scenarioB) = ascii ''Discord Bot''"
  by (simp add: scenarioB_def merchant_initialFormData_def trim_def isWhiteSpace_def ascii_def)

lemma trim_blank: "trim (ascii ''  '') = []"
  by (simp add: trim_def isWhiteSpace_def ascii_def)

lemma trim_scenarioA_name:
  "trim (ascii ''Crypto Cafe'') = ascii ''Crypto Cafe'' \<and> trim (ascii ''Tokyo'') = ascii ''Tokyo''"
  by (simp add: trim_def isWhiteSpace_def ascii_def)

subsection \<open>Submitting without confirmation or without a user\<close>

text \<open>
  Claim C2. In both forms, at the confirmation step (step 3, not submitted), when the
  confirmation box is not ticked or nobody is signed in, \<open>handleSubmit\<close> returns before
  the \<open>await\<close>: no row is given to \<open>insert\<close>, the step is still 3, \<open>submitted\<close> is
  still false, the draft is the same, and an error message is set.
\<close>

theorem handleSubmit_guards_fail_fast:
  assumes "step s = 3" and "\<not> submitted s" and "\<not> confirmed s \<or> user = None"
    and "step m = 3" and "\<not> submitted m" and "\<not> confirmed m \<or> user = None"
  shows "snd (shop_handleSubmit user shopClient s) = [] \<and>
         snd (shop_submitStart user shopClient s) = None \<and>
         step (fst (shop_handleSubmit user shopClient s)) = 3 \<and>
         \<not> submitted (fst (shop_handleSubmit user shopClient s)) \<and>
         formData (fst (shop_handleSubmit user shopClient s)) = formData s \<and>
         error (fst (shop_handleSubmit user shopClient s)) \<noteq> None \<and>
         snd (merchant_handleSubmit user merchantClient m) = [] \<and>
         snd (merchant_submitStart user merchantClient m) = None \<and>
         step (fst (merchant_handleSubmit user merchantClient m)) = 3 \<and>
         \<not> submitted (fst (merchant_handleSubmit user merchantClient m)) \<and>
         formData (fst (merchant_handleSubmit user merchantClient m)) = formData m \<and>
         error (fst (merchant_handleSubmit user merchantClient m)) \<noteq> None"
proof -
  have "snd (shop_submitStart user shopClient s) = None"
    using assms(3) by (auto simp: shop_submitStart_def)
  moreover have "snd (merchant_submitStart user merchantClient m) = None"
    using assms(6) by (auto simp: merchant_submitStart_def)
  ultimately show ?thesis
    using assms
    by (simp add: shop_handleSubmit_guard [OF assms(3)]
          merchant_handleSubmit_guard [OF assms(6)])
qed

theorem handleSubmit_guards_fail_fast_witness:
  "step (atConfirm scenarioA False) = 3 \<and>
   \<not> submitted (atConfirm scenarioA False) \<and>
   \<not> confirmed (atConfirm scenarioA False) \<and>
   step (atConfirm scenarioB True) = 3 \<and>
   \<not> submitted (atConfirm scenarioB True) \<and>
   snd (shop_handleSubmit (Some caller) (Some acceptingClient) (atConfirm scenarioA False))
     = [] \<and>
   step (fst (shop_handleSubmit (Some caller) (Some acceptingClient)
               (atConfirm scenarioA False))) = 3 \<and>
   error (fst (shop_handleSubmit (Some caller) (Some acceptingClient)
               (atConfirm scenarioA False))) \<noteq> None \<and>
   snd (merchant_handleSubmit None (Some acceptingClient) (atConfirm scenarioB True)) = [] \<and>
   step (fst (merchant_handleSubmit None (Some acceptingClient)
               (atConfirm scenarioB True))) = 3 \<and>
   error (fst (merchant_handleSubmit None (Some acceptingClient)
               (atConfirm scenarioB True))) \<noteq> None"
proof -
  have a: "step (atConfirm scenarioA False) = 3" "\<not> submitted (atConfirm scenarioA False)"
    "\<not> confirmed (atConfirm scenarioA False)"
    by (simp_all add: atConfirm_def)
  have b: "step (atConfirm scenarioB True) = 3" "\<not> submitted (atConfirm scenarioB True)"
    by (simp_all add: atConfirm_def)
  have shop:
    "snd (shop_handleSubmit (Some caller) (Some acceptingClient) (atConfirm scenarioA False))
       = [] \<and>
     step (fst (shop_handleSubmit (Some caller) (Some acceptingClient)
                 (atConfirm scenarioA False))) = 3 \<and>
     error (fst (shop_handleSubmit (Some caller) (Some acceptingClient)
                 (atConfirm scenarioA False))) \<noteq> None"
    using handleSubmit_guards_fail_fast
      [of "atConfirm scenarioA False" "Some caller" "atConfirm scenarioB False"
          "Some acceptingClient" "Some acceptingClient"]
    by (simp add: atConfirm_def)
  have merchant:
    "snd (merchant_handleSubmit None (Some acceptingClient) (atConfirm scenarioB True)) = [] \<and>
     step (fst (merchant_handleSubmit None (Some acceptingClient)
                 (atConfirm scenarioB True))) = 3 \<and>
     error (fst (merchant_handleSubmit None (Some acceptingClient)
                 (atConfirm scenarioB True))) \<noteq> None"
    using handleSubmit_guards_fail_fast
      [of "atConfirm scenarioA False" None "atConfirm scenarioB True"
          "Some acceptingClient" "Some acceptingClient"]
    by (simp add: atConfirm_def)
  show ?thesis
    using a b shop merchant by simp
qed

subsection \<open>A rejected insert\<close>

text \<open>
  Claim C3. In both forms, at the confirmation step with the box ticked and a user signed
  in, when the insert does not succeed (its result carries an error, or the promise is
  rejected), \<open>handleSubmit\<close> has made that one call and leaves the form at step 3, not
  submitted and no longer submitting, with every field of the draft as it was and with the
  one general message that asks to try again.
\<close>

theorem handleSubmit_insert_rejected:
  assumes "step s = 3" and "\<not> submitted s" and "confirmed s"
    and "shopClient (shop_row (formData s) u) \<noteq> InsertOk"
    and "step m = 3" and "\<not> submitted m" and "confirmed m"
    and "merchantClient (merchant_row (formData m) u) \<noteq> InsertOk"
  shows "snd (shop_handleSubmit (Some u) (Some shopClient) s) = [shop_row (formData s) u] \<and>
         step (fst (shop_handleSubmit (Some u) (Some shopClient) s)) = 3 \<and>
         \<not> submitted (fst (shop_handleSubmit (Some u) (Some shopClient) s)) \<and>
         \<not> submitting (fst (shop_handleSubmit (Some u) (Some shopClient) s)) \<and>
         formData (fst (shop_handleSubmit (Some u) (Some shopClient) s)) = formData s \<and>
         confirmed (fst (shop_handleSubmit (Some u) (Some shopClient) s)) \<and>
         error (fst (shop_handleSubmit (Some u) (Some shopClient) s)) = Some msg_failed \<and>
         snd (merchant_handleSubmit (Some u) (Some merchantClient) m) =
           [merchant_row (formData m) u] \<and>
         step (fst (merchant_handleSubmit (Some u) (Some merchantClient) m)) = 3 \<and>
         \<not> submitted (fst (merchant_handleSubmit (Some u) (Some merchantClient) m)) \<and>
         \<not> submitting (fst (merchant_handleSubmit (Some u) (Some merchantClient) m)) \<and>
         formData (fst (merchant_handleSubmit (Some u) (Some merchantClient) m)) =
           formData m \<and>
         confirmed (fst (merchant_handleSubmit (Some u) (Some merchantClient) m)) \<and>
         error (fst (merchant_handleSubmit (Some u) (Some merchantClient) m)) =
           Some msg_failed"
  using assms
  by (simp add: shop_handleSubmit_rejected [where st = s and client = shopClient and u = u]
        merchant_handleSubmit_rejected [where st = m and client = merchantClient and u = u])

theorem handleSubmit_insert_rejected_witness:
  "step (atConfirm scenarioA True) = 3 \<and>
   \<not> submitted (atConfirm scenarioA True) \<and>
   confirmed (atConfirm scenarioA True) \<and>
   failingClient (shop_row (formData (atConfirm scenarioA True)) caller) \<noteq> InsertOk \<and>
   step (atConfirm scenarioB True) = 3 \<and>
   \<not> submitted (atConfirm scenarioB True) \<and>
   confirmed (atConfirm scenarioB True) \<and>
   failingClient (merchant_row (formData (atConfirm scenarioB True)) caller) \<noteq> InsertOk \<and>
   step (fst (shop_handleSubmit (Some caller) (Some failingClient)
               (atConfirm scenarioA True))) = 3 \<and>
   \<not> submitted (fst (shop_handleSubmit (Some caller) (Some failingClient)
                      (atConfirm scenarioA True))) \<and>
   formData (fst (shop_handleSubmit (Some caller) (Some failingClient)
                   (atConfirm scenarioA True))) = scenarioA \<and>
   error (fst (shop_handleSubmit (Some caller) (Some failingClient)
                (atConfirm scenarioA True))) = Some msg_failed \<and>
   step (fst (merchant_handleSubmit (Some caller) (Some failingClient)
               (atConfirm scenarioB True))) = 3 \<and>
   \<not> submitted (fst (merchant_handleSubmit (Some caller) (Some failingClient)
                      (atConfirm scenarioB True))) \<and>
   formData (fst (merchant_handleSubmit (Some caller) (Some failingClient)
                   (atConfirm scenarioB True))) = scenarioB \<and>
   error (fst (merchant_handleSubmit (Some caller) (Some failingClient)
                (atConfirm scenarioB True))) = Some msg_failed"
proof -
  have a: "step (atConfirm scenarioA True) = 3" "\<not> submitted (atConfirm scenarioA True)"
    "confirmed (atConfirm scenarioA True)"
    "failingClient (shop_row (formData (atConfirm scenarioA True)) caller) \<noteq> InsertOk"
    by (simp_all add: atConfirm_def failingClient_def)
  have b: "step (atConfirm scenarioB True) = 3" "\<not> submitted (atConfirm scenarioB True)"
    "confirmed (atConfirm scenarioB True)"
    "failingClient (merchant_row (formData (atConfirm scenarioB True)) caller) \<noteq> InsertOk"
    by (simp_all add: atConfirm_def failingClient_def)
  have fd: "formData (atConfirm scenarioA True) = scenarioA"
    "formData (atConfirm scenarioB True) = scenarioB"
    by (simp_all add: atConfirm_def)
  show ?thesis
    using a b
      handleSubmit_insert_rejected
        [where s = "atConfirm scenarioA True" and shopClient = failingClient and u = caller
           and m = "atConfirm scenarioB True" and merchantClient = failingClient]
    by (simp only: fd simp_thms)
qed

subsection \<open>The rows that are inserted\<close>

text \<open>
  Claim C4. For the draft of scenario A (whatever its other fields hold), with the box
  ticked and a user signed in, \<open>handleSubmit\<close> gives the Supabase client exactly one row;
  its tags are the category alone, its networks \<open>Polygon\<close> alone, its payment methods the
  selected method alone, its status is pending, its creator is the id of the user and both
  vote counters are zero. When the client accepts the row the form is submitted.
\<close>

theorem shop_handleSubmit_scenarioA:
  "snd (shop_handleSubmit (Some u) (Some client)
          (st\<lparr>formData :=
                fd\<lparr>sf_name := ascii ''Crypto Cafe'', sf_address := ascii ''Tokyo'',
                   sf_category := cafe, sf_jpycUseCases := [storePayment],
                   sf_networks := [ascii ''Polygon''], sf_paymentMethod := qrPayment\<rparr>,
              confirmed := True\<rparr>)) =
     [\<lparr>sr_name = ascii ''Crypto Cafe'', sr_address = ascii ''Tokyo'',
       sr_lat = sf_lat fd, sr_lng = sf_lng fd,
       sr_jpyc_networks = [ascii ''Polygon''], sr_payment_methods = [qrPayment],
       sr_url = orNull (trim (sf_url fd)), sr_tags = [cafe], sr_status = Pending,
       sr_created_by = user_id u, sr_upvotes = 0, sr_downvotes = 0\<rparr>] \<and>
   submitted (fst (shop_handleSubmit (Some u) (Some acceptingClient)
          (st\<lparr>formData :=
                fd\<lparr>sf_name := ascii ''Crypto Cafe'', sf_address := ascii ''Tokyo'',
                   sf_category := cafe, sf_jpycUseCases := [storePayment],
                   sf_networks := [ascii ''Polygon''], sf_paymentMethod := qrPayment\<rparr>,
              confirmed := True\<rparr>)))"
proof -
  have "shop_networks
          (fd\<lparr>sf_name := ascii ''Crypto Cafe'', sf_address := ascii ''Tokyo'',
              sf_category := cafe, sf_jpycUseCases := [storePayment],
              sf_networks := [ascii ''Polygon''], sf_paymentMethod := qrPayment\<rparr>) =
        [ascii ''Polygon'']"
    by (simp add: shop_networks_def polygon_not_sonota polygon_not_sonota [symmetric])
  then show ?thesis
    by (simp add: shop_handleSubmit_def shop_submitStart_def shop_row_def Let_def
          submitSettle_def acceptingClient_def trim_scenarioA_name)
qed

text \<open>
  The row of a merchant draft carries the word ``other'' among its platforms exactly when
  the draft has it selected and the trimmed free text is that word.
\<close>

lemma merchant_platforms_sonota:
  "sonota \<in> set (merchant_platforms fd) \<longleftrightarrow>
     sonota \<in> set (mf_platforms fd) \<and> trim (mf_platformOther fd) = sonota"
  using sonota_nonempty by (auto simp: merchant_platforms_def)

text \<open>
  Claim C5, as stated, fails: the draft of scenario B with the free text ``other'' has the
  sentinel selected and a free text that is not blank, the box is ticked, a user is signed
  in, and the platforms of the inserted row are the sentinel itself.
\<close>

theorem merchant_platforms_sentinel_counterexample:
  "confirmed (atConfirm scenarioB_sentinel True) \<and>
   sonota \<in> set (mf_platforms (formData (atConfirm scenarioB_sentinel True))) \<and>
   trim (mf_platformOther (formData (atConfirm scenarioB_sentinel True))) \<noteq> [] \<and>
   map mr_platforms
     (snd (merchant_handleSubmit (Some caller) (Some acceptingClient)
            (atConfirm scenarioB_sentinel True))) = [[sonota]]"
  by (simp add: scenarioB_sentinel_def scenarioB_def merchant_initialFormData_def
        atConfirm_def merchant_handleSubmit_def merchant_submitStart_def merchant_row_def
        merchant_platforms_def trim_def isWhiteSpace_def sonota_def)

text \<open>
  Claim C5, amended. For every merchant draft with the box ticked and a user signed in,
  whose platforms contain the sentinel and whose free text is not blank, the platforms of
  the inserted row are the selected platforms without the sentinel, followed by the trimmed
  free text. That list contains the trimmed free text, and it contains the sentinel exactly
  when the trimmed free text is the sentinel.
\<close>

theorem merchant_platforms_free_text_replaces_sentinel:
  assumes "sonota \<in> set (mf_platforms (formData st))"
    and "trim (mf_platformOther (formData st)) \<noteq> []"
  shows "map mr_platforms
           (snd (merchant_handleSubmit (Some u) (Some client) (st\<lparr>confirmed := True\<rparr>))) =
           [filter (\<lambda>p. p \<noteq> sonota) (mf_platforms (formData st)) @
              [trim (mf_platformOther (formData st))]] \<and>
         trim (mf_platformOther (formData st)) \<in>
           set (mr_platforms (merchant_row (formData st) u)) \<and>
         (sonota \<in> set (mr_platforms (merchant_row (formData st) u)) \<longleftrightarrow>
            trim (mf_platformOther (formData st)) = sonota)"
proof -
  have "mr_platforms (merchant_row (formData st) u) = merchant_platforms (formData st)"
    by (simp add: merchant_row_def)
  moreover have "merchant_platforms (formData st) =
      filter (\<lambda>p. p \<noteq> sonota) (mf_platforms (formData st)) @
        [trim (mf_platformOther (formData st))]"
    using assms by (simp add: merchant_platforms_def)
  ultimately show ?thesis
    using assms(1) merchant_platforms_sonota [of "formData st"]
    by (simp add: merchant_handleSubmit_rows)
qed

theorem merchant_platforms_free_text_replaces_sentinel_witness:
  "sonota \<in> set (mf_platforms (formData (atConfirm scenarioB False))) \<and>
   trim (mf_platformOther (formData (atConfirm scenarioB False))) \<noteq> [] \<and>
   map mr_platforms
     (snd (merchant_handleSubmit (Some caller) (Some acceptingClient)
            (atConfirm scenarioB True))) = [[ascii ''Discord Bot'']] \<and>
   sonota \<notin> set (mr_platforms (merchant_row scenarioB caller))"
proof -
  have fd: "formData (atConfirm scenarioB False) = scenarioB"
    by (simp add: atConfirm_def)
  have sel: "mf_platforms scenarioB = [sonota]"
    by (simp add: scenarioB_def)
  have other: "ascii ''Discord Bot'' \<noteq> sonota" "ascii ''Discord Bot'' \<noteq> []"
    by (simp_all add: ascii_def sonota_def)
  have a: "sonota \<in> set (mf_platforms (formData (atConfirm scenarioB False)))"
    "trim (mf_platformOther (formData (atConfirm scenarioB False))) \<noteq> []"
    by (simp_all add: fd sel trim_scenarioB_platformOther other)
  show ?thesis
    using a
      merchant_platforms_free_text_replaces_sentinel
        [OF a, of caller acceptingClient]
    by (simp add: fd sel trim_scenarioB_platformOther other atConfirm_update)
qed

text \<open>
  Claim C6. The claim is that, at submit time, the free-text use of JPYC and the free-text
  network, when not blank, are appended to their lists in the data given to the store. Here
  is what \<open>handleSubmit\<close> does for scenario A with the free text \<open>Gift\<close> as a use of
  JPYC (the box ticked, a user signed in, the insert accepted): the list \<open>jpycUseCases\<close>
  that it builds is the selected use followed by \<open>Gift\<close>, and the one row that it inserts
  has the twelve properties below, none of which is that list or contains \<open>Gift\<close>.
\<close>

theorem shop_handleSubmit_useCases_not_submitted:
  "confirmed (atConfirm scenarioA_gift True) \<and>
   trim (sf_jpycUseCaseOther scenarioA_gift) = ascii ''Gift'' \<and>
   shop_jpycUseCases scenarioA_gift = [storePayment, ascii ''Gift''] \<and>
   snd (shop_handleSubmit (Some caller) (Some acceptingClient)
          (atConfirm scenarioA_gift True)) =
     [\<lparr>sr_name = ascii ''Crypto Cafe'', sr_address = ascii ''Tokyo'',
       sr_lat = 35.6812, sr_lng = 139.7671,
       sr_jpyc_networks = [ascii ''Polygon''], sr_payment_methods = [qrPayment],
       sr_url = None, sr_tags = [cafe], sr_status = Pending,
       sr_created_by = ascii ''user-1'', sr_upvotes = 0, sr_downvotes = 0\<rparr>]"
  by (simp add: scenarioA_gift_def scenarioA_def shop_initialFormData_def atConfirm_def
        shop_handleSubmit_def shop_submitStart_def shop_row_def shop_networks_def
        shop_jpycUseCases_def trim_def isWhiteSpace_def sonota_def ascii_def orNull_def
        caller_def Let_def)

subsection \<open>The sentinel as the only network\<close>

text \<open>
  Claim C10. For a shop draft whose networks are the sentinel alone and whose free-text
  network is blank: the second validation does not fail on the networks; it succeeds exactly
  when a use of JPYC is given and a payment method is selected, and the form then goes from
  step 2 to step 3; and the row inserted on submit has the empty list as its networks.
\<close>

theorem shop_sentinel_only_network:
  assumes "sf_networks (formData st) = [sonota]"
    and "trim (sf_networkOther (formData st)) = []"
  shows "error (snd (shop_validateStep2 st)) \<noteq> Some msg_shop_networks \<and>
         fst (shop_validateStep2 st) =
           ((sf_jpycUseCases (formData st) \<noteq> [] \<or>
             trim (sf_jpycUseCaseOther (formData st)) \<noteq> []) \<and>
            sf_paymentMethod (formData st) \<noteq> []) \<and>
         (fst (shop_validateStep2 st) \<and> step st = 2 \<longrightarrow> step (shop_nextStep st) = 3) \<and>
         map sr_jpyc_networks
           (snd (shop_handleSubmit (Some u) (Some client) (st\<lparr>confirmed := True\<rparr>))) = [[]]"
proof -
  have v: "error (snd (shop_validateStep2 st)) \<noteq> Some msg_shop_networks"
    using assms msg_shop_networks_distinct by (auto simp: shop_validateStep2_def)
  have f: "fst (shop_validateStep2 st) =
           ((sf_jpycUseCases (formData st) \<noteq> [] \<or>
             trim (sf_jpycUseCaseOther (formData st)) \<noteq> []) \<and>
            sf_paymentMethod (formData st) \<noteq> [])"
    using assms by (auto simp: shop_validateStep2_def)
  have n: "fst (shop_validateStep2 st) \<and> step st = 2 \<longrightarrow> step (shop_nextStep st) = 3"
    by (auto simp: shop_nextStep_def shop_validateStep2_def split: if_splits)
  have r: "sr_jpyc_networks (shop_row (formData st) u) = []"
    using assms by (simp add: shop_row_def shop_networks_def Let_def)
  show ?thesis
    using v f n r by (simp add: shop_handleSubmit_rows)
qed

theorem shop_sentinel_only_network_witness:
  "sf_networks (formData (prevStep (atConfirm scenarioA_otherNetwork False))) = [sonota] \<and>
   trim (sf_networkOther (formData (prevStep (atConfirm scenarioA_otherNetwork False)))) = [] \<and>
   step (prevStep (atConfirm scenarioA_otherNetwork False)) = 2 \<and>
   fst (shop_validateStep2 (prevStep (atConfirm scenarioA_otherNetwork False))) \<and>
   step (shop_nextStep (prevStep (atConfirm scenarioA_otherNetwork False))) = 3 \<and>
   map sr_jpyc_networks
     (snd (shop_handleSubmit (Some caller) (Some acceptingClient)
            ((prevStep (atConfirm scenarioA_otherNetwork False))\<lparr>confirmed := True\<rparr>))) = [[]]"
proof -
  have fd: "formData (prevStep (atConfirm scenarioA_otherNetwork False)) =
      scenarioA_otherNetwork"
    by (simp add: prevStep_def atConfirm_def)
  have a: "sf_networks (formData (prevStep (atConfirm scenarioA_otherNetwork False))) =
      [sonota]"
    "trim (sf_networkOther (formData (prevStep (atConfirm scenarioA_otherNetwork False)))) =
      []"
    unfolding fd by (simp_all add: scenarioA_otherNetwork_def trim_blank)
  have s: "step (prevStep (atConfirm scenarioA_otherNetwork False)) = 2"
    by (simp add: prevStep_def atConfirm_def)
  have u: "sf_jpycUseCases scenarioA_otherNetwork \<noteq> []"
    "sf_paymentMethod scenarioA_otherNetwork \<noteq> []"
    by (simp_all add: scenarioA_otherNetwork_def scenarioA_def qrPayment_def)
  show ?thesis
    using a s u shop_sentinel_only_network [OF a, of caller acceptingClient]
    by (simp add: fd)
qed

subsection \<open>The step index\<close>

text \<open>\<open>prevStep\<close> itself subtracts one; it is the rendering that offers it above step 1.\<close>

lemma step_prevStep: "step (prevStep st) = step st - 1"
  by (simp add: prevStep_def)

lemma shop_ui_step:
  assumes "shop_ui ev st = Some st'" and "step st \<in> {1, 2, 3}"
  shows "step st' \<in> {1, 2, 3}"
  using assms
  by (cases ev)
     (auto simp: shop_ui_def shop_nextStep_def shop_validateStep1_def shop_validateStep2_def
        prevStep_def submitSettle_def shop_submitStart_def shop_resetForm_def
        split: if_splits option.splits InsertResult.splits)

lemma merchant_ui_step:
  assumes "merchant_ui ev st = Some st'" and "step st \<in> {1, 2, 3}"
  shows "step st' \<in> {1, 2, 3}"
  using assms
  by (cases ev)
     (auto simp: merchant_ui_def merchant_nextStep_def merchant_validateStep1_def
        merchant_validateStep2_def Let_def
        prevStep_def submitSettle_def merchant_submitStart_def merchant_resetForm_def
        split: if_splits option.splits InsertResult.splits)

lemma shop_reachable_step: "shop_reachable st \<Longrightarrow> step st \<in> {1, 2, 3}"
proof (induction rule: shop_reachable.induct)
  case shop_start
  show ?case
    by (simp add: shop_initial_def)
next
  case (shop_event st ev st')
  then show ?case
    by (rule_tac shop_ui_step)
qed

lemma merchant_reachable_step: "merchant_reachable st \<Longrightarrow> step st \<in> {1, 2, 3}"
proof (induction rule: merchant_reachable.induct)
  case merchant_start
  show ?case
    by (simp add: merchant_initial_def)
next
  case (merchant_event st ev st')
  then show ?case
    by (rule_tac merchant_ui_step)
qed

text \<open>The draft of scenario A can be brought to the confirmation step with the box ticked.\<close>

lemma shop_reachable_atConfirm: "shop_reachable (atConfirm scenarioA True)"
proof -
  let ?s1 = "shop_initial\<lparr>formData := scenarioA\<rparr>"
  have v1: "trim (sf_name scenarioA) \<noteq> []" "trim (sf_address scenarioA) \<noteq> []"
    "sf_category scenarioA \<noteq> []"
    by (simp_all add: scenarioA_def trim_def isWhiteSpace_def ascii_def cafe_def)
  have v2: "sf_jpycUseCases scenarioA \<noteq> []" "sf_networks scenarioA \<noteq> []"
    "sf_paymentMethod scenarioA \<noteq> []"
    by (simp_all add: scenarioA_def qrPayment_def)
  have "shop_ui (ChangeForm (\<lambda>_. scenarioA)) shop_initial = Some ?s1"
    by (simp add: shop_ui_def shop_initial_def)
  from shop_event [OF shop_start this] have r1: "shop_reachable ?s1" .
  have "shop_ui ClickNext ?s1 = Some (?s1\<lparr>step := 2\<rparr>)"
    using v1 by (simp add: shop_ui_def shop_initial_def shop_nextStep_def
          shop_validateStep1_def)
  from shop_event [OF r1 this] have r2: "shop_reachable (?s1\<lparr>step := 2\<rparr>)" .
  have "shop_ui ClickNext (?s1\<lparr>step := 2\<rparr>) = Some (?s1\<lparr>step := 3\<rparr>)"
    using v2 by (simp add: shop_ui_def shop_initial_def shop_nextStep_def
          shop_validateStep2_def)
  from shop_event [OF r2 this] have r3: "shop_reachable (?s1\<lparr>step := 3\<rparr>)" .
  have "shop_ui (ChangeConfirmed True) (?s1\<lparr>step := 3\<rparr>) = Some (atConfirm scenarioA True)"
    by (simp add: shop_ui_def shop_initial_def atConfirm_def)
  from shop_event [OF r3 this] show ?thesis .
qed

text \<open>
  Claim C7. In both forms, every operation that the rendered form offers (next, back,
  submit and the settling of its insert, reset, and the edits of the draft and of the
  confirmation box) takes a state with a step in \<open>{1, 2, 3}\<close> to a state with a step in
  \<open>{1, 2, 3}\<close>; so every state reachable from the initial state, which is at step 1, has
  its step in \<open>{1, 2, 3}\<close>.
\<close>

theorem wizard_step_in_range:
  "(step s \<in> {1, 2, 3} \<and> shop_ui sev s = Some s' \<longrightarrow> step s' \<in> {1, 2, 3}) \<and>
   (shop_reachable s \<longrightarrow> step s \<in> {1, 2, 3}) \<and>
   (step m \<in> {1, 2, 3} \<and> merchant_ui mev m = Some m' \<longrightarrow> step m' \<in> {1, 2, 3}) \<and>
   (merchant_reachable m \<longrightarrow> step m \<in> {1, 2, 3}) \<and>
   step shop_initial = 1 \<and> step merchant_initial = 1"
  using shop_reachable_step [of s] merchant_reachable_step [of m]
    shop_ui_step [of sev s s'] merchant_ui_step [of mev m m']
  by (simp add: shop_initial_def merchant_initial_def)

theorem wizard_step_in_range_witness:
  "shop_reachable (atConfirm scenarioA True) \<and>
   step (atConfirm scenarioA True) \<in> {1, 2, 3} \<and>
   shop_ui ClickBack (atConfirm scenarioA True) = Some (prevStep (atConfirm scenarioA True)) \<and>
   step (prevStep (atConfirm scenarioA True)) \<in> {1, 2, 3} \<and>
   merchant_reachable merchant_initial \<and>
   step merchant_initial \<in> {1, 2, 3} \<and>
   merchant_ui ClickNext merchant_initial =
     Some (merchant_initial\<lparr>error := Some msg_merchant_name\<rparr>) \<and>
   step (merchant_initial\<lparr>error := Some msg_merchant_name\<rparr>) \<in> {1, 2, 3}"
proof -
  have bk: "shop_ui ClickBack (atConfirm scenarioA True) =
      Some (prevStep (atConfirm scenarioA True))"
    by (simp add: shop_ui_def atConfirm_def)
  have "trim (mf_name (formData merchant_initial)) = []"
    by (simp add: merchant_initial_def merchant_initialFormData_def trim_def)
  then have "merchant_nextStep merchant_initial =
      merchant_initial\<lparr>error := Some msg_merchant_name\<rparr>"
    by (simp add: merchant_nextStep_def merchant_validateStep1_def)
       (simp add: merchant_initial_def)
  then have nxt: "merchant_ui ClickNext merchant_initial =
      Some (merchant_initial\<lparr>error := Some msg_merchant_name\<rparr>)"
    by (simp add: merchant_ui_def) (simp add: merchant_initial_def)
  have st: "step (atConfirm scenarioA True) = 3" "step (prevStep (atConfirm scenarioA True)) = 2"
    "step merchant_initial = 1"
    "step (merchant_initial\<lparr>error := Some msg_merchant_name\<rparr>) = 1"
    by (simp_all add: atConfirm_def prevStep_def merchant_initial_def)
  show ?thesis
    using shop_reachable_atConfirm merchant_start bk nxt
      wizard_step_in_range
        [of "atConfirm scenarioA True" ClickBack "prevStep (atConfirm scenarioA True)"
            merchant_initial ClickNext "merchant_initial\<lparr>error := Some msg_merchant_name\<rparr>"]
    by (simp add: st)
qed

end
